theory Spec2Isabelle
  imports
    Complex_Main
    "HOL-Library.Multiset"
    "HOL-Library.Char_ord"
    "HOL-Library.List_Lexorder"
    "HOL-Library.Product_Lexorder"
    "HOL-Library.Word"
begin

unbundle bit_operations_syntax

section \<open>timelord: city search, nearest airports, result formatting\<close>

text \<open>
  A shallow embedding of \<^verbatim>\<open>timelord.go\<close>. Go strings are byte sequences and are
  modelled as \<open>string\<close> (a list of 8-bit characters); the comparison \<^verbatim>\<open><\<close> on Go
  strings is the bytewise lexicographic order, which is the order of
  \<open>List_Lexorder\<close> over \<open>Char_ord\<close>. An \<^verbatim>\<open>int64\<close> is a 64-bit word.

  A \<^verbatim>\<open>float64\<close> is a finite number, an infinity or NaN; a finite one is modelled by
  the real number it denotes. The comparison \<^verbatim>\<open><\<close> on \<^verbatim>\<open>float64\<close> is \<open>float_less\<close>: it
  is false whenever an operand is NaN, so it is not a linear order. The rounding
  arithmetic inside \<^verbatim>\<open>HaversineDistance\<close> (\<^verbatim>\<open>math.Sin\<close>, \<^verbatim>\<open>math.Cos\<close>, \<^verbatim>\<open>math.Atan2\<close>,
  \<^verbatim>\<open>math.Sqrt\<close>, \<^verbatim>\<open>math.Pow\<close>) is not modelled: the functions that call it only store
  and compare its results, so they take the distance function as an argument of the
  same name, and that argument may return NaN, as the code's function does where
  rounding makes \<^verbatim>\<open>1-a\<close> negative under \<^verbatim>\<open>math.Sqrt\<close>.

  A run-time panic is a value: every function of the source that can panic returns
  \<open>panic + 'a\<close>, with \<open>Inl\<close> for the panic.
\<close>

datatype float64 = Finite real | PosInf | NegInf | NaN

fun float_less :: "float64 \<Rightarrow> float64 \<Rightarrow> bool" where
  "float_less NaN y = False"
| "float_less x NaN = False"
| "float_less (Finite a) (Finite b) = (a < b)"
| "float_less (Finite a) PosInf = True"
| "float_less (Finite a) NegInf = False"
| "float_less PosInf y = False"
| "float_less NegInf NegInf = False"
| "float_less NegInf y = True"

text \<open>
  Where no NaN is involved the floats are linearly ordered; \<open>float_rank\<close> places them
  in a linear order (its value at NaN is not used).
\<close>

fun float_rank :: "float64 \<Rightarrow> int \<times> real" where
  "float_rank NegInf = (- 1, 0)"
| "float_rank (Finite a) = (0, a)"
| "float_rank PosInf = (1, 0)"
| "float_rank NaN = (2, 0)"

type_synonym int64 = "64 word"

datatype panic =
  Panic string \<comment> \<open>\<^verbatim>\<open>panic(v)\<close> called by the program, with the printed value\<close>
  | RuntimeError string \<comment> \<open>a panic raised by the Go runtime or a library\<close>

subsection \<open>Data\<close>

record City =
  ID :: string
  Name :: string
  ASCIIName :: string
  CountryID :: string
  Timezone :: string
  Population :: int64
  Latitude :: string
  Longitude :: string

record SearchResultIcon =
  Path :: string

record SearchResult =
  UID :: string
  Title :: string
  Subtitle :: string
  Arg :: string
  Autocomplete :: string
  Icon :: SearchResultIcon

text \<open>
  \<open>Airport\<close> has fields \<open>ID\<close> and \<open>Name\<close> as \<open>City\<close> has; the city's are written
  \<open>City.ID\<close> and \<open>City.Name\<close>.
\<close>

record Airport =
  ID :: int64
  Name :: string
  Code :: string
  CountryCode :: string
  Lat :: float64
  Long :: float64
  Type :: string
  Distance :: float64

text \<open>The zero values \<^verbatim>\<open>City{}\<close> and \<^verbatim>\<open>SearchResult{}\<close>.\<close>

definition City_zero :: City where
  "City_zero = \<lparr>City.ID = [], City.Name = [], ASCIIName = [], CountryID = [], Timezone = [],
     Population = 0, Latitude = [], Longitude = []\<rparr>"

definition SearchResult_zero :: SearchResult where
  "SearchResult_zero = \<lparr>UID = [], Title = [], Subtitle = [], Arg = [], Autocomplete = [],
     Icon = \<lparr>Path = []\<rparr>\<rparr>"

subsection \<open>sort.SliceStable\<close>

text \<open>
  \<^verbatim>\<open>sort.SliceStable(x, less)\<close> of Go's standard library sorts blocks of 20 elements by
  insertion sort and then merges neighbouring blocks in place, keeping equal elements
  in their order. The insertion sort is
  \<^verbatim>\<open>for i := a + 1; i < b; i++ { for j := i; j > a && less(j, j-1); j-- { swap(j, j-1) } }\<close>.
  \<open>sift lt x pre\<close> is its inner loop: \<open>pre\<close> is the sorted part \<open>data[a..i-1]\<close> read
  from the right (\<open>data[i-1]\<close> first), and \<open>x = data[i]\<close> moves left while it is \<open>lt\<close>
  than its left neighbour. On a slice of at most 20 elements (the second sort of
  \<^verbatim>\<open>FindClosestAirport\<close> always) \<open>SliceStable\<close> below is the library's run step by step,
  for every \<open>lt\<close>. On a longer slice the library's merge passes give the same list
  whenever \<open>lt\<close> compares a key of a linear order (no NaN among the distances),
  because the stable sorted arrangement is unique (\<open>stable_sorted_by_unique\<close> below);
  with a NaN among the keys of a longer slice the merge passes, which like the
  insertion sort only swap elements of the slice, may leave them in another order
  than the model does.
\<close>

fun sift :: "('a \<Rightarrow> 'a \<Rightarrow> bool) \<Rightarrow> 'a \<Rightarrow> 'a list \<Rightarrow> 'a list" where
  "sift lt x [] = [x]"
| "sift lt x (y # ys) = (if lt x y then y # sift lt x ys else x # y # ys)"

definition insertionSort :: "('a \<Rightarrow> 'a \<Rightarrow> bool) \<Rightarrow> 'a list \<Rightarrow> 'a list" where
  "insertionSort lt data = rev (foldl (\<lambda>pre x. sift lt x pre) [] data)"

definition SliceStable :: "('a \<Rightarrow> 'a \<Rightarrow> bool) \<Rightarrow> 'a list \<Rightarrow> 'a list" where
  "SliceStable lt x = insertionSort lt x"

text \<open>
  What a stable sort by a key is: \<open>ys\<close> holds the elements of \<open>xs\<close>, in ascending
  order of the key, and the elements of each key stand in the order they had in \<open>xs\<close>.
\<close>

definition stable_sorted_by :: "('a \<Rightarrow> 'k::linorder) \<Rightarrow> 'a list \<Rightarrow> 'a list \<Rightarrow> bool" where
  "stable_sorted_by key xs ys \<longleftrightarrow>
     mset ys = mset xs \<and> sorted (map key ys) \<and>
     (\<forall>k. filter (\<lambda>x. key x = k) ys = filter (\<lambda>x. key x = k) xs)"

subsection \<open>FindClosestAirport\<close>

text \<open>
  \<^verbatim>\<open>s[:n]\<close> panics when \<open>n\<close> is beyond the slice. (The runtime compares with the
  capacity, which is at least the length; the model checks the length, the stricter
  bound.)
\<close>

definition slice_to :: "'a list \<Rightarrow> nat \<Rightarrow> panic + 'a list" where
  "slice_to s n =
     (if n \<le> length s then Inr (take n s)
      else Inl (RuntimeError ''slice bounds out of range''))"

text \<open>
  \<^verbatim>\<open>int64(math.Min(float64(len(s)), k))\<close>: for \<open>k \<le> 5\<close> the conversions are exact
  whenever the minimum is the length, so the value is the minimum of the two numbers.
\<close>

definition min_len :: "'a list \<Rightarrow> nat \<Rightarrow> nat" where
  "min_len s k = min (length s) k"

definition FindClosestAirport ::
  "(float64 \<Rightarrow> float64 \<Rightarrow> float64 \<Rightarrow> float64 \<Rightarrow> float64) \<Rightarrow>
     float64 \<Rightarrow> float64 \<Rightarrow> Airport list \<Rightarrow> panic + Airport list" where
  "FindClosestAirport HaversineDistance lat long airports =
     (let matches = foldl (\<lambda>matches airport.
                       let distance = HaversineDistance lat long (Lat airport) (Long airport)
                       in matches @ [airport\<lparr>Distance := distance\<rparr>]) [] airports;
          matches = SliceStable (\<lambda>a b. float_less (Distance a) (Distance b)) matches
      in case slice_to matches (min_len matches 5) of
           Inl p \<Rightarrow> Inl p
         | Inr filter' \<Rightarrow>
             let filter' = SliceStable (\<lambda>a b. Type a < Type b) filter'
             in slice_to filter' (min_len filter' 3))"

subsection \<open>FindClosestAirport on a store\<close>

text \<open>
  Whether the caller's slice is written through is a question of aliasing, so the same
  function is modelled once more on an explicit store. The store is the list of the
  backing arrays allocated so far; an array's address is its position, and an
  allocation appends. A slice is a view of the first \<open>len\<close> elements of the array at
  \<open>array\<close> (every slice of this function starts at offset 0); a nil slice has length 0.
  \<^verbatim>\<open>append\<close> writes behind the slice's last element; the reallocation the runtime does
  when the capacity is used up moves the array of \<open>matches\<close>, to which no other slice
  refers during the loop, and is not modelled.
\<close>

type_synonym addr = nat
type_synonym store = "Airport list list"

record slice =
  array :: addr
  len :: nat

definition elems :: "store \<Rightarrow> slice \<Rightarrow> Airport list" where
  "elems h s = take (len s) (h ! array s)"

definition valid :: "store \<Rightarrow> slice \<Rightarrow> bool" where
  "valid h s \<longleftrightarrow> len s = 0 \<or> (array s < length h \<and> len s \<le> length (h ! array s))"

definition make_slice :: "store \<Rightarrow> slice \<times> store" where
  "make_slice h = (\<lparr>array = length h, len = 0\<rparr>, h @ [[]])"

definition append_st :: "slice \<Rightarrow> Airport \<Rightarrow> store \<Rightarrow> slice \<times> store" where
  "append_st s x h = (s\<lparr>len := len s + 1\<rparr>, h[array s := take (len s) (h ! array s) @ [x]])"

text \<open>The sort works in place, on the elements the slice views.\<close>

definition SliceStable_st :: "slice \<Rightarrow> (Airport \<Rightarrow> Airport \<Rightarrow> bool) \<Rightarrow> store \<Rightarrow> store" where
  "SliceStable_st s lt h =
     h[array s := SliceStable lt (take (len s) (h ! array s)) @ drop (len s) (h ! array s)]"

definition reslice_to :: "slice \<Rightarrow> nat \<Rightarrow> panic + slice" where
  "reslice_to s n =
     (if n \<le> len s then Inr (s\<lparr>len := n\<rparr>)
      else Inl (RuntimeError ''slice bounds out of range''))"

text \<open>
  The \<^verbatim>\<open>range\<close> loop reads \<open>airports[i]\<close> from the store as it is at that iteration and
  copies it into the loop variable; the distance is assigned to the copy.
\<close>

definition FindClosestAirport_st ::
  "(float64 \<Rightarrow> float64 \<Rightarrow> float64 \<Rightarrow> float64 \<Rightarrow> float64) \<Rightarrow>
     float64 \<Rightarrow> float64 \<Rightarrow> slice \<Rightarrow> store \<Rightarrow> panic + slice \<times> store" where
  "FindClosestAirport_st HaversineDistance lat long airports h =
     (let (matches, h) = make_slice h;
          (matches, h) = foldl (\<lambda>(matches, h) i.
                            let airport = h ! array airports ! i;
                                distance = HaversineDistance lat long (Lat airport) (Long airport);
                                airport = airport\<lparr>Distance := distance\<rparr>
                            in append_st matches airport h) (matches, h) [0..<len airports];
          h = SliceStable_st matches (\<lambda>a b. float_less (Distance a) (Distance b)) h
      in case reslice_to matches (min (len matches) 5) of
           Inl p \<Rightarrow> Inl p
         | Inr filter' \<Rightarrow>
             let h = SliceStable_st filter' (\<lambda>a b. Type a < Type b) h
             in case reslice_to filter' (min (len filter') 3) of
                  Inl p \<Rightarrow> Inl p
                | Inr result \<Rightarrow> Inr (result, h))"

subsection \<open>The bleve index as the program sees it\<close>

text \<open>
  The index is a library object. The program builds a match query for the search
  term, asks for the hits sorted by \<^verbatim>\<open>"-_score", "-population"\<close>, and reads the stored
  document of a hit by its id. \<open>Search\<close> gives the library's error or the ordered hits;
  \<open>Document\<close> gives the values of the stored fields, in the order the library keeps
  them, or \<open>None\<close> for the nil document (an unknown id or an error, which the
  program drops).
\<close>

record SearchRequest =
  Query :: string
  Sort :: "string list"

record Hit =
  HitID :: string
  Score :: float64

record Index =
  Search :: "SearchRequest \<Rightarrow> string + Hit list"
  Document :: "string \<Rightarrow> string list option"

definition NewMatchQuery :: "string \<Rightarrow> string" where
  "NewMatchQuery searchTerm = searchTerm"

definition NewSearchRequest :: "string \<Rightarrow> SearchRequest" where
  "NewSearchRequest query = \<lparr>Query = query, Sort = [''-_score'']\<rparr>"

definition SortBy :: "SearchRequest \<Rightarrow> string list \<Rightarrow> SearchRequest" where
  "SortBy search order = search\<lparr>Sort := order\<rparr>"

subsection \<open>searchCity\<close>

text \<open>
  \<^verbatim>\<open>binary.BigEndian.Uint64(b)\<close> reads eight bytes and panics on a shorter slice; the
  conversion to \<^verbatim>\<open>int64\<close> keeps the bits.
\<close>

definition BigEndian_Uint64 :: "string \<Rightarrow> panic + int64" where
  "BigEndian_Uint64 b =
     (if length b \<le> 7 then Inl (RuntimeError ''index out of range'')
      else Inr (of_char (b ! 7) OR push_bit 8 (of_char (b ! 6)) OR push_bit 16 (of_char (b ! 5))
                OR push_bit 24 (of_char (b ! 4)) OR push_bit 32 (of_char (b ! 3))
                OR push_bit 40 (of_char (b ! 2)) OR push_bit 48 (of_char (b ! 1))
                OR push_bit 56 (of_char (b ! 0))))"

text \<open>
  The composite literal \<^verbatim>\<open>City{string(raw.Fields[0].Value()), ...}\<close>: an index beyond
  the fields panics, as a population value of fewer than eight bytes does.
\<close>

definition cityFromFields :: "string list \<Rightarrow> panic + City" where
  "cityFromFields fs =
     (if length fs \<le> 7 then Inl (RuntimeError ''index out of range'')
      else case BigEndian_Uint64 (fs ! 5) of
             Inl p \<Rightarrow> Inl p
           | Inr population \<Rightarrow>
               Inr \<lparr>City.ID = fs ! 0, City.Name = fs ! 1, ASCIIName = fs ! 2,
                    CountryID = fs ! 3, Timezone = fs ! 4, Population = population,
                    Latitude = fs ! 6, Longitude = fs ! 7\<rparr>)"

text \<open>
  The body of the loop over the hits: \<open>raw.Fields\<close> of a nil document is a nil
  dereference.
\<close>

definition hitCity :: "Index \<Rightarrow> Hit \<Rightarrow> panic + City" where
  "hitCity index hit =
     (case Document index (HitID hit) of
        None \<Rightarrow> Inl (RuntimeError ''invalid memory address or nil pointer dereference'')
      | Some raw \<Rightarrow> cityFromFields raw)"

fun hitsLoop :: "Index \<Rightarrow> Hit list \<Rightarrow> City list \<Rightarrow> panic + City list" where
  "hitsLoop index [] results = Inr results"
| "hitsLoop index (hit # hits) results =
     (case hitCity index hit of
        Inl p \<Rightarrow> Inl p
      | Inr result \<Rightarrow> hitsLoop index hits (results @ [result]))"

text \<open>
  The result \<^verbatim>\<open>(*City, error)\<close> is the city pointed to and the error, \<open>None\<close> for
  \<^verbatim>\<open>nil\<close>.
\<close>

definition searchCity :: "string \<Rightarrow> Index \<Rightarrow> panic + City \<times> string option" where
  "searchCity searchTerm index =
     (let query = NewMatchQuery searchTerm;
          search = NewSearchRequest query;
          search = SortBy search [''-_score'', ''-population'']
      in case Search index search of
           Inl err \<Rightarrow> Inl (Panic err)
         | Inr hits \<Rightarrow>
             if length hits = 0 then Inr (City_zero, Some ''No results found'')
             else (case hitsLoop index hits [] of
                     Inl p \<Rightarrow> Inl p
                   | Inr results \<Rightarrow>
                       (case results of
                          [] \<Rightarrow> Inl (RuntimeError ''index out of range'')
                        | first # _ \<Rightarrow> Inr (first, None))))"

subsection \<open>performSearch\<close>

text \<open>
  One goroutine per term runs \<open>searchCity\<close> and sends its city on an unbuffered
  channel; the function receives \<open>len(cities)\<close> values and keeps those with a non-empty
  \<open>ID\<close>. The program does not determine the order in which the goroutines deliver, so
  the order is an argument: \<open>arrival sched pending\<close> takes, for each number \<open>k\<close> of the
  schedule, the pending outcome at position \<open>k mod length pending\<close>, and the outcomes
  left when the schedule ends in their order. Every schedule gives a permutation of the
  outcomes and every permutation is given by a schedule. A panic in a goroutine ends
  the program; the model returns the first panic in the order of arrival.
\<close>

fun arrival :: "nat list \<Rightarrow> 'a list \<Rightarrow> 'a list" where
  "arrival [] pending = pending"
| "arrival (k # sched) pending =
     (if pending = [] then []
      else let i = k mod length pending
           in pending ! i # arrival sched (take i pending @ drop (Suc i) pending))"

fun receive :: "(panic + City \<times> string option) list \<Rightarrow> City list \<Rightarrow> panic + City list" where
  "receive [] results = Inr results"
| "receive (Inl p # runner) results = Inl p"
| "receive (Inr (result, err) # runner) results =
     receive runner (if City.ID result \<noteq> [] then results @ [result] else results)"

definition performSearch :: "nat list \<Rightarrow> string list \<Rightarrow> Index \<Rightarrow> panic + City list" where
  "performSearch sched cities cityIndex =
     receive (arrival sched (map (\<lambda>item. searchCity item cityIndex) cities)) []"

text \<open>
  The city a term resolves to, as \<open>performSearch\<close> reads it: the error is dropped and
  the pointer followed. (A search that panics sends no city; the theorem about
  \<open>performSearch\<close> uses \<open>bestMatch\<close> only for batches in which no search panics.)
\<close>

definition bestMatch :: "Index \<Rightarrow> string \<Rightarrow> City" where
  "bestMatch cityIndex item =
     (case searchCity item cityIndex of Inr (c, e) \<Rightarrow> c | Inl p \<Rightarrow> City_zero)"

subsection \<open>formatResults\<close>

text \<open>
  What \<open>formatResults\<close> takes from outside the program: the time zone database, the
  clock, the file system and library functions whose results it only passes on.
  \<open>LoadLocation\<close> is \<open>None\<close> when \<^verbatim>\<open>time.LoadLocation\<close> returns an error; the location it
  returns then is nil. \<open>Now i\<close> is the clock at the \<open>i\<close>-th iteration. \<open>Format t loc layout\<close>
  and \<open>ZoneName t loc\<close> are \<^verbatim>\<open>Format(layout)\<close> and the name from \<^verbatim>\<open>Zone()\<close> of the time
  \<open>t\<close> in the location \<open>loc\<close>. \<open>IsNotExist path\<close> is \<^verbatim>\<open>os.IsNotExist(err)\<close> for the error
  of \<^verbatim>\<open>os.Stat(path)\<close>. \<open>ParseFloat\<close> is the value of \<^verbatim>\<open>strconv.ParseFloat(s, 64)\<close>, whose
  error the program drops.
\<close>

type_synonym Time = int
type_synonym Location = string

record Env =
  LoadLocation :: "string \<Rightarrow> Location option"
  Now :: "nat \<Rightarrow> Time"
  Format :: "Time \<Rightarrow> Location \<Rightarrow> string \<Rightarrow> string"
  ZoneName :: "Time \<Rightarrow> Location \<Rightarrow> string"
  IsNotExist :: "string \<Rightarrow> bool"
  ToLower :: "string \<Rightarrow> string"
  ParseFloat :: "string \<Rightarrow> float64"
  Marshal :: "SearchResult list \<Rightarrow> string"

text \<open>\<^verbatim>\<open>m[k]\<close> on a Go map gives the zero value for a missing key.\<close>

definition index_string :: "(string \<rightharpoonup> string) \<Rightarrow> string \<Rightarrow> string" where
  "index_string m k = (case m k of None \<Rightarrow> [] | Some v \<Rightarrow> v)"

definition index_airports :: "(string \<rightharpoonup> Airport list) \<Rightarrow> string \<Rightarrow> Airport list" where
  "index_airports m k = (case m k of None \<Rightarrow> [] | Some v \<Rightarrow> v)"

text \<open>\<^verbatim>\<open>strings.Join\<close>, \<^verbatim>\<open>strings.Split\<close> with a one-byte separator, and
  \<^verbatim>\<open>strings.Replace(s, old, new, -1)\<close> with one-byte \<open>old\<close> and \<open>new\<close>.\<close>

fun Join :: "string list \<Rightarrow> string \<Rightarrow> string" where
  "Join [] sep = []"
| "Join [a] sep = a"
| "Join (a # b # rest) sep = a @ sep @ Join (b # rest) sep"

fun Split :: "string \<Rightarrow> char \<Rightarrow> string list" where
  "Split [] sep = [[]]"
| "Split (c # s) sep =
     (if c = sep then [] # Split s sep
      else (case Split s sep of [] \<Rightarrow> [[c]] | part # parts \<Rightarrow> (c # part) # parts))"

definition Replace :: "string \<Rightarrow> char \<Rightarrow> char \<Rightarrow> string" where
  "Replace s old new = map (\<lambda>c. if c = old then new else c) s"

text \<open>
  The eight bytes between the city name and the time in the title, as the source file
  has them.
\<close>

definition title_dash :: string where
  "title_dash = [CHR 0xC3, CHR 0xA2, CHR 0xE2, CHR 0x82, CHR 0xAC, CHR 0xE2, CHR 0x80, CHR 0x9D]"

text \<open>
  The body of the loop for a city with a non-empty \<open>ID\<close>. \<^verbatim>\<open>time.Now().In(loc)\<close> panics
  when \<open>loc\<close> is nil.
\<close>

definition formatCity ::
  "(float64 \<Rightarrow> float64 \<Rightarrow> float64 \<Rightarrow> float64 \<Rightarrow> float64) \<Rightarrow> Env \<Rightarrow>
     (string \<rightharpoonup> string) \<Rightarrow> (string \<rightharpoonup> Airport list) \<Rightarrow>
     (string \<rightharpoonup> string) \<Rightarrow> (string \<rightharpoonup> string) \<Rightarrow> nat \<Rightarrow> City \<Rightarrow>
     panic + SearchResult" where
  "formatCity HaversineDistance env countryIndex airportIndex phoneIndex currencyIndex i city =
     (case LoadLocation env (Timezone city) of
        None \<Rightarrow> Inl (RuntimeError ''time: missing Location in call to Time.In'')
      | Some loc \<Rightarrow>
          let now = Now env i;
              zone = ZoneName env now loc;
              icon = ToLower env (Replace (index_string countryIndex (CountryID city))
                       CHR '' '' CHR ''_'');
              icon = ''flags/'' @ icon @ ''.png'';
              icon = (if IsNotExist env icon then ''flags/_no_flag.png'' else icon);
              lat = ParseFloat env (Latitude city);
              long = ParseFloat env (Longitude city)
          in case FindClosestAirport HaversineDistance lat long
                    (index_airports airportIndex (CountryID city)) of
               Inl p \<Rightarrow> Inl p
             | Inr airports \<Rightarrow>
                 let airportString = map Code airports;
                     subtitle = [Format env now loc ''Monday, January 2'',
                                 index_string countryIndex (CountryID city),
                                 ''+'' @ index_string phoneIndex (CountryID city),
                                 index_string currencyIndex (CountryID city),
                                 Join airportString '','']
                 in Inr \<lparr>UID = City.ID city,
                         Title = City.Name city @ '' '' @ title_dash @ '' '' @
                                   Format env now loc ''3:04 PM'' @ '' '' @ zone,
                         Subtitle = Join subtitle '' | '',
                         Arg = City.Name city,
                         Autocomplete = City.Name city,
                         Icon = \<lparr>Path = icon\<rparr>\<rparr>)"

text \<open>
  The loop \<^verbatim>\<open>for i, city := range results\<close> over the slice \<open>output\<close> of
  \<open>len(results)\<close> zero values: a city with an empty \<open>ID\<close> is skipped by \<^verbatim>\<open>continue\<close>.
\<close>

fun formatLoop ::
  "(nat \<Rightarrow> City \<Rightarrow> panic + SearchResult) \<Rightarrow> nat \<Rightarrow> City list \<Rightarrow> SearchResult list \<Rightarrow>
     panic + SearchResult list" where
  "formatLoop body i [] output = Inr output"
| "formatLoop body i (city # results) output =
     (if City.ID city = [] then formatLoop body (i + 1) results output
      else (case body i city of
              Inl p \<Rightarrow> Inl p
            | Inr r \<Rightarrow> formatLoop body (i + 1) results (output[i := r])))"

text \<open>The slice \<open>output\<close> at the end of the loop: the items array of the payload.\<close>

definition formatItems ::
  "(float64 \<Rightarrow> float64 \<Rightarrow> float64 \<Rightarrow> float64 \<Rightarrow> float64) \<Rightarrow> Env \<Rightarrow> City list \<Rightarrow>
     (string \<rightharpoonup> string) \<Rightarrow> (string \<rightharpoonup> Airport list) \<Rightarrow>
     (string \<rightharpoonup> string) \<Rightarrow> (string \<rightharpoonup> string) \<Rightarrow> panic + SearchResult list" where
  "formatItems HaversineDistance env results countryIndex airportIndex phoneIndex currencyIndex =
     formatLoop (formatCity HaversineDistance env countryIndex airportIndex phoneIndex currencyIndex)
       0 results (replicate (length results) SearchResult_zero)"

definition formatResults ::
  "(float64 \<Rightarrow> float64 \<Rightarrow> float64 \<Rightarrow> float64 \<Rightarrow> float64) \<Rightarrow> Env \<Rightarrow> City list \<Rightarrow>
     (string \<rightharpoonup> string) \<Rightarrow> (string \<rightharpoonup> Airport list) \<Rightarrow>
     (string \<rightharpoonup> string) \<Rightarrow> (string \<rightharpoonup> string) \<Rightarrow> panic + string" where
  "formatResults HaversineDistance env results countryIndex airportIndex phoneIndex currencyIndex =
     (case formatItems HaversineDistance env results countryIndex airportIndex phoneIndex
             currencyIndex of
        Inl p \<Rightarrow> Inl p
      | Inr output \<Rightarrow>
          Inr ([CHR ''{'', CHR 0x22] @ ''items'' @ [CHR 0x22, CHR '':''] @ Marshal env output @ ''}''))"

subsection \<open>main\<close>

text \<open>
  \<open>main\<close> is modelled with the trace of what it does to the outside: the files it
  looks up, the index it creates and opens, the datasets it loads, the line it prints.
  The loaders and the index construction are input and output; the world gives their
  results (a panic, or the parsed table or the opened index), and \<open>Sched\<close> is the order
  in which the goroutines of \<open>performSearch\<close> deliver. \<open>args\<close> is \<^verbatim>\<open>os.Args[1:]\<close>.
\<close>

datatype event =
  Stat string
  | CreateIndexCall string string
  | OpenIndexCall string
  | LoadDataset string
  | Println string

record World =
  Environ :: Env
  Sched :: "nat list"
  CreateIndex :: "string \<Rightarrow> string \<Rightarrow> panic + unit"
  OpenIndex :: "string \<Rightarrow> panic + Index"
  GetCountryMap :: "string \<Rightarrow> panic + (string \<rightharpoonup> string)"
  GetAirportsByCountry :: "string \<Rightarrow> panic + (string \<rightharpoonup> Airport list)"
  GetPhoneCodesByCountry :: "string \<Rightarrow> panic + (string \<rightharpoonup> string)"
  GetCurrencyByCountry :: "string \<Rightarrow> panic + (string \<rightharpoonup> string)"

type_synonym 'a io = "event list \<times> (panic + 'a)"

text \<open>Sequencing: a panic ends the run, and the trace so far is kept.\<close>

definition and_then :: "'a io \<Rightarrow> ('a \<Rightarrow> 'b io) \<Rightarrow> 'b io" where
  "and_then m f =
     (case m of
        (t, Inl p) \<Rightarrow> (t, Inl p)
      | (t, Inr x) \<Rightarrow> (case f x of (t', r) \<Rightarrow> (t @ t', r)))"

definition call :: "event \<Rightarrow> panic + 'a \<Rightarrow> 'a io" where
  "call e r = ([e], r)"

definition pure_step :: "panic + 'a \<Rightarrow> 'a io" where
  "pure_step r = ([], r)"

definition main ::
  "(float64 \<Rightarrow> float64 \<Rightarrow> float64 \<Rightarrow> float64 \<Rightarrow> float64) \<Rightarrow> World \<Rightarrow> string list \<Rightarrow> unit io" where
  "main HaversineDistance w args =
     (let indexFile = ''cities.bleve'';
          cityFile = ''datasets/cities.json'';
          countryFile = ''datasets/countries.json'';
          airportFile = ''datasets/airports.json'';
          phoneFile = ''datasets/phone.json'';
          currencyFile = ''datasets/currency.json'';
          input = Join args '' ''
      in if input = [] then ([], Inl (Panic ''Must specify query''))
         else
           and_then (call (Stat indexFile) (Inr (IsNotExist (Environ w) indexFile))) (\<lambda>missing.
           and_then (if missing
                     then call (CreateIndexCall indexFile cityFile) (CreateIndex w indexFile cityFile)
                     else pure_step (Inr ())) (\<lambda>_.
           and_then (call (OpenIndexCall indexFile) (OpenIndex w indexFile)) (\<lambda>cityIndex.
           and_then (call (LoadDataset countryFile) (GetCountryMap w countryFile)) (\<lambda>countryIndex.
           and_then (call (LoadDataset airportFile) (GetAirportsByCountry w airportFile)) (\<lambda>airportIndex.
           and_then (call (LoadDataset phoneFile) (GetPhoneCodesByCountry w phoneFile)) (\<lambda>phoneIndex.
           and_then (call (LoadDataset currencyFile) (GetCurrencyByCountry w currencyFile)) (\<lambda>currencyIndex.
           let searchTerm = Split input CHR '',''
           in and_then (pure_step (performSearch (Sched w) searchTerm cityIndex)) (\<lambda>results.
              and_then (pure_step (formatResults HaversineDistance (Environ w) results countryIndex
                                     airportIndex phoneIndex currencyIndex)) (\<lambda>payload.
              call (Println payload) (Inr ())))))))))))"

subsection \<open>The index store of the specification\<close>

text \<open>
  Modelled from the spec: the Index Store (section 4.1), which in the program is the
  bleve library and not part of the repository. The store holds the indexed cities,
  each with the id of its document, the values of its stored fields and the number
  indexed as its population; \<open>Relevance\<close> is the fuzzy match of a term against a
  document, \<open>None\<close> for no match and the score otherwise. Scores and populations of
  the store are numbers. \<open>query\<close> returns all matches
  ordered by descending score and, among equal scores, by descending population; it
  returns the empty list, not an error, when nothing matches.
\<close>

record IndexedCity =
  DocID :: string
  Stored :: "string list"
  IndexedPopulation :: real

record IndexStore =
  Docs :: "IndexedCity list"
  Relevance :: "string \<Rightarrow> IndexedCity \<Rightarrow> real option"

definition matching :: "IndexStore \<Rightarrow> string \<Rightarrow> (IndexedCity \<times> real) list" where
  "matching st term =
     List.map_filter (\<lambda>d. map_option (\<lambda>score. (d, score)) (Relevance st term d)) (Docs st)"

definition query :: "IndexStore \<Rightarrow> string \<Rightarrow> (IndexedCity \<times> real) list" where
  "query st term =
     sort_key (\<lambda>(d, score). (- score, - IndexedPopulation d)) (matching st term)"

text \<open>
  The store as the index the program calls: a search with the sort order the
  resolver asks for is answered by \<open>query\<close> (no other order occurs in the program; the
  model leaves the matches in the order of the documents then).
\<close>

definition storeIndex :: "IndexStore \<Rightarrow> Index" where
  "storeIndex st =
     \<lparr>Search = (\<lambda>req. Inr (map (\<lambda>(d, score). \<lparr>HitID = DocID d, Score = Finite score\<rparr>)
                   (if Sort req = [''-_score'', ''-population'']
                    then query st (Query req) else matching st (Query req)))),
      Document = (\<lambda>id. map_option Stored (find (\<lambda>d. DocID d = id) (Docs st)))\<rparr>"

subsection \<open>Example values\<close>

text \<open>
  Concrete inputs on which the theorems below are run: a distance function (NaN
  where a coordinate is not finite), two airports, an index with one city, and an outside world in which the zone
  \<open>America/Toronto\<close> loads, the flag of Canada exists and no zone is called
  \<open>Mars/Olympus_Mons\<close>. \<open>Marshal\<close> of the example world stands in for \<^verbatim>\<open>json.Marshal\<close>.
\<close>

fun taxicab :: "float64 \<Rightarrow> float64 \<Rightarrow> float64 \<Rightarrow> float64 \<Rightarrow> float64" where
  "taxicab (Finite la1) (Finite lg1) (Finite la2) (Finite lg2) =
     Finite (\<bar>la2 - la1\<bar> + \<bar>lg2 - lg1\<bar>)"
| "taxicab la1 lg1 la2 lg2 = NaN"

definition far_airport :: Airport where
  "far_airport = \<lparr>Airport.ID = 1, Airport.Name = ''Far'', Code = ''FAR'', CountryCode = ''CA'',
     Lat = Finite 3, Long = Finite 0, Type = ''small_airport'', Distance = Finite 7\<rparr>"

definition near_airport :: Airport where
  "near_airport = \<lparr>Airport.ID = 2, Airport.Name = ''Near'', Code = ''NEA'', CountryCode = ''CA'',
     Lat = Finite 1, Long = Finite 0, Type = ''large_airport'', Distance = Finite 9\<rparr>"

text \<open>
  The input on which the ranking by distance fails: the query point \<open>(2.5, 0)\<close>, five
  airports to the north of it, the airport \<open>ANT\<close> at its antipode \<open>(-2.5, 180)\<close> and the
  airport \<open>NEA\<close> next to it. \<open>haversine_table\<close> holds what \<^verbatim>\<open>HaversineDistance\<close> of the
  code returns from the query point to each of them, in kilometres rounded to 10 m.
  At the antipode the code computes \<^verbatim>\<open>a = 1.0000000000000002\<close> (the correctly rounded
  sine and cosine of \<open>2.5\<close> degrees, squared and added), \<^verbatim>\<open>math.Sqrt(1-a)\<close> is NaN and so
  is the distance.
\<close>

definition airport_at :: "int64 \<Rightarrow> string \<Rightarrow> real \<Rightarrow> real \<Rightarrow> string \<Rightarrow> Airport" where
  "airport_at n code la lg ty =
     \<lparr>Airport.ID = n, Airport.Name = code, Code = code, CountryCode = ''XX'',
      Lat = Finite la, Long = Finite lg, Type = ty, Distance = Finite 0\<rparr>"

definition antipode_airports :: "Airport list" where
  "antipode_airports =
     [airport_at 1 ''FA1'' 3.5 0 ''small_airport'',
      airport_at 2 ''FA2'' 4.5 0 ''small_airport'',
      airport_at 3 ''FA3'' 5.5 0 ''small_airport'',
      airport_at 4 ''FA4'' 6.5 0 ''small_airport'',
      airport_at 5 ''FA5'' 7.5 0 ''small_airport'',
      airport_at 6 ''ANT'' (- 2.5) 180 ''small_airport'',
      airport_at 7 ''NEA'' 2.5 0.01 ''large_airport'']"

definition haversine_table :: "float64 \<Rightarrow> float64 \<Rightarrow> float64 \<Rightarrow> float64 \<Rightarrow> float64" where
  "haversine_table la1 lg1 la2 lg2 =
     (if (la2, lg2) = (Finite 3.5, Finite 0) then Finite 111.19
      else if (la2, lg2) = (Finite 4.5, Finite 0) then Finite 222.39
      else if (la2, lg2) = (Finite 5.5, Finite 0) then Finite 333.58
      else if (la2, lg2) = (Finite 6.5, Finite 0) then Finite 444.78
      else if (la2, lg2) = (Finite 7.5, Finite 0) then Finite 555.97
      else if (la2, lg2) = (Finite 2.5, Finite 0.01) then Finite 1.11
      else NaN)"

definition toronto_fields :: "string list" where
  "toronto_fields = [''6167865'', ''Toronto'', ''Toronto'', ''CA'', ''America/Toronto'',
     [CHR 0x00, CHR 0x00, CHR 0x00, CHR 0x00, CHR 0x00, CHR 0x2A, CHR 0xB9, CHR 0x80],
     ''43.7'', ''-79.4'']"

definition toronto :: City where
  "toronto = \<lparr>City.ID = ''6167865'', City.Name = ''Toronto'', ASCIIName = ''Toronto'',
     CountryID = ''CA'', Timezone = ''America/Toronto'', Population = 2800000,
     Latitude = ''43.7'', Longitude = ''-79.4''\<rparr>"

definition toronto_ohio_fields :: "string list" where
  "toronto_ohio_fields = [''5174095'', ''Toronto'', ''Toronto'', ''US'', ''America/New_York'',
     [CHR 0x00, CHR 0x00, CHR 0x00, CHR 0x00, CHR 0x00, CHR 0x00, CHR 0x13, CHR 0xE3],
     ''40.46'', ''-80.6'']"

definition olympus :: City where
  "olympus = \<lparr>City.ID = ''1'', City.Name = ''Olympus'', ASCIIName = ''Olympus'',
     CountryID = ''CA'', Timezone = ''Mars/Olympus_Mons'', Population = 0,
     Latitude = ''18.65'', Longitude = ''-133.8''\<rparr>"

definition example_index :: Index where
  "example_index =
     \<lparr>Search = (\<lambda>req. if Query req = ''toronto''
                       then Inr [\<lparr>HitID = ''6167865'', Score = Finite 1\<rparr>] else Inr []),
      Document = (\<lambda>id. if id = ''6167865'' then Some toronto_fields else None)\<rparr>"

definition example_store :: IndexStore where
  "example_store =
     \<lparr>Docs = [\<lparr>DocID = ''5174095'', Stored = toronto_ohio_fields, IndexedPopulation = 5091\<rparr>,
              \<lparr>DocID = ''6167865'', Stored = toronto_fields, IndexedPopulation = 2800000\<rparr>],
      Relevance = (\<lambda>term d. if term = ''toronto'' then Some 1 else None)\<rparr>"

definition example_env :: Env where
  "example_env =
     \<lparr>LoadLocation = (\<lambda>name. if name = [] \<or> name = ''UTC'' then Some ''UTC''
                              else if name = ''America/Toronto'' then Some ''America/Toronto''
                              else None),
      Now = (\<lambda>i. 1562439556),
      Format = (\<lambda>t loc layout. if layout = ''3:04 PM'' then ''2:59 PM'' else ''Saturday, July 6''),
      ZoneName = (\<lambda>t loc. ''EDT''),
      IsNotExist = (\<lambda>path. path \<noteq> ''flags/canada.png''),
      ToLower = (\<lambda>s. if s = ''Canada'' then ''canada'' else s),
      ParseFloat = (\<lambda>s. if s = ''43.7'' then Finite 43.7
                        else if s = ''-79.4'' then Finite (- 79.4) else Finite 0),
      Marshal = (\<lambda>items. ''['' @ Join (map UID items) '','' @ '']'')\<rparr>"

definition example_countries :: "string \<rightharpoonup> string" where
  "example_countries = [''CA'' \<mapsto> ''Canada'']"

definition example_airports :: "string \<rightharpoonup> Airport list" where
  "example_airports = [''CA'' \<mapsto> [far_airport, near_airport]]"

definition example_phones :: "string \<rightharpoonup> string" where
  "example_phones = [''CA'' \<mapsto> ''1'']"

definition example_currencies :: "string \<rightharpoonup> string" where
  "example_currencies = [''CA'' \<mapsto> ''CAD'']"

definition example_world :: World where
  "example_world =
     \<lparr>Environ = example_env, Sched = [1],
      CreateIndex = (\<lambda>databasePath citiFile. Inr ()),
      OpenIndex = (\<lambda>databasePath. Inr example_index),
      GetCountryMap = (\<lambda>countryFile. Inr example_countries),
      GetAirportsByCountry = (\<lambda>airportFile. Inr example_airports),
      GetPhoneCodesByCountry = (\<lambda>phoneFile. Inr example_phones),
      GetCurrencyByCountry = (\<lambda>currencyFile. Inr example_currencies)\<rparr>"

section \<open>Properties\<close>

subsection \<open>The insertion sort is the stable sort\<close>

lemma mset_sift: "mset (sift lt x ys) = add_mset x (mset ys)"
  by (induction ys) auto

lemma set_sift: "set (sift lt x ys) = insert x (set ys)"
  by (induction ys) auto

text \<open>The sorted part is kept from the right, so it is in descending order of the key.\<close>

lemma desc_sift:
  fixes key :: "'a \<Rightarrow> 'k::linorder"
  assumes "sorted_wrt (\<lambda>a b. key b \<le> key a) ys"
  shows "sorted_wrt (\<lambda>a b. key b \<le> key a) (sift (\<lambda>a b. key a < key b) x ys)"
  using assms by (induction ys) (auto simp: set_sift)

lemma filter_sift:
  fixes key :: "'a \<Rightarrow> 'k::linorder"
  shows "filter (\<lambda>y. key y = k) (rev (sift (\<lambda>a b. key a < key b) x ys)) =
         filter (\<lambda>y. key y = k) (rev ys) @ (if key x = k then [x] else [])"
  by (induction ys) auto

lemma foldl_sift:
  fixes key :: "'a \<Rightarrow> 'k::linorder"
  assumes "sorted_wrt (\<lambda>a b. key b \<le> key a) acc"
  shows "sorted_wrt (\<lambda>a b. key b \<le> key a)
           (foldl (\<lambda>pre x. sift (\<lambda>a b. key a < key b) x pre) acc xs)
    \<and> mset (foldl (\<lambda>pre x. sift (\<lambda>a b. key a < key b) x pre) acc xs) = mset acc + mset xs
    \<and> filter (\<lambda>y. key y = k) (rev (foldl (\<lambda>pre x. sift (\<lambda>a b. key a < key b) x pre) acc xs))
        = filter (\<lambda>y. key y = k) (rev acc) @ filter (\<lambda>y. key y = k) xs"
  using assms
proof (induction xs arbitrary: acc)
  case Nil
  then show ?case by simp
next
  case (Cons x xs)
  from Cons.IH [OF desc_sift [OF Cons.prems, of x]]
  show ?case by (simp add: mset_sift filter_sift)
qed

lemma desc_iff_sorted_rev:
  fixes key :: "'a \<Rightarrow> 'k::linorder"
  shows "sorted_wrt (\<lambda>a b. key b \<le> key a) ys \<longleftrightarrow> sorted (map key (rev ys))"
  by (simp add: sorted_map sorted_wrt_rev)

lemma insertionSort_stable_sorted_by:
  fixes key :: "'a \<Rightarrow> 'k::linorder"
  shows "stable_sorted_by key xs (insertionSort (\<lambda>a b. key a < key b) xs)"
  using foldl_sift [of key "[]" xs]
  by (simp add: stable_sorted_by_def insertionSort_def desc_iff_sorted_rev)

text \<open>A list has one stable sorted arrangement: the one \<open>sort_key\<close> computes.\<close>

lemma stable_sorted_by_unique:
  "stable_sorted_by key xs ys \<Longrightarrow> ys = sort_key key xs"
  unfolding stable_sorted_by_def
  by (intro properties_for_sort_key [symmetric]) (auto simp: eq_commute)

lemma SliceStable_sort_key:
  fixes key :: "'a \<Rightarrow> 'k::linorder"
  shows "SliceStable (\<lambda>a b. key a < key b) xs = sort_key key xs"
  unfolding SliceStable_def
  by (rule stable_sorted_by_unique) (rule insertionSort_stable_sorted_by)

text \<open>For every comparison the sort rearranges the slice and no more.\<close>

lemma mset_SliceStable [simp]: "mset (SliceStable lt xs) = mset xs"
proof -
  have "mset (foldl (\<lambda>pre x. sift lt x pre) acc xs) = mset acc + mset xs" for acc
    by (induction xs arbitrary: acc) (simp_all add: mset_sift)
  then show ?thesis by (simp add: SliceStable_def insertionSort_def)
qed

lemma SliceStable_Nil [simp]: "SliceStable lt [] = []"
  by (simp add: SliceStable_def insertionSort_def)

text \<open>The sort only asks the comparison about elements of the slice.\<close>

lemma sift_cong:
  assumes "\<forall>y\<in>set ys. lt x y = lt' x y"
  shows "sift lt x ys = sift lt' x ys"
  using assms by (induction ys) auto

lemma foldl_sift_cong:
  assumes "\<forall>x\<in>set acc \<union> set xs. \<forall>y\<in>set acc \<union> set xs. lt x y = lt' x y"
  shows "foldl (\<lambda>pre x. sift lt x pre) acc xs = foldl (\<lambda>pre x. sift lt' x pre) acc xs"
  using assms
proof (induction xs arbitrary: acc)
  case Nil
  then show ?case by simp
next
  case (Cons x xs)
  have eq: "sift lt x acc = sift lt' x acc"
    using Cons.prems by (intro sift_cong) simp
  have "\<forall>a\<in>set (sift lt' x acc) \<union> set xs. \<forall>b\<in>set (sift lt' x acc) \<union> set xs. lt a b = lt' a b"
    using Cons.prems by (simp add: set_sift)
  from Cons.IH [OF this] eq show ?case by simp
qed

lemma SliceStable_cong:
  assumes "\<forall>x\<in>set xs. \<forall>y\<in>set xs. lt x y = lt' x y"
  shows "SliceStable lt xs = SliceStable lt' xs"
  using foldl_sift_cong [of "[]" xs lt lt'] assms
  by (simp add: SliceStable_def insertionSort_def)

lemma float_less_rank:
  "a \<noteq> NaN \<Longrightarrow> b \<noteq> NaN \<Longrightarrow> float_less a b \<longleftrightarrow> float_rank a < float_rank b"
  by (cases a; cases b) simp_all

subsection \<open>FindClosestAirport\<close>

lemma foldl_append_map: "foldl (\<lambda>m a. m @ [f a]) acc xs = acc @ map f xs"
  by (induction xs arbitrary: acc) auto

lemma take_min_length: "take (min (length xs) k) xs = take k xs"
  by (cases "length xs \<le> k") (simp_all add: min_def)

lemma slice_to_min_len: "slice_to s (min_len s k) = Inr (take k s)"
  by (simp add: slice_to_def min_len_def take_min_length)

lemma mset_take_subseteq: "mset (take n xs) \<subseteq># mset xs"
proof -
  have "mset xs = mset (take n xs) + mset (drop n xs)"
    by (simp flip: mset_append)
  then show ?thesis by simp
qed

lemma length_sift: "length (sift lt x ys) = Suc (length ys)"
  by (induction ys) auto

lemma length_SliceStable [simp]: "length (SliceStable lt xs) = length xs"
proof -
  have "length (foldl (\<lambda>pre x. sift lt x pre) acc xs) = length acc + length xs" for acc
    by (induction xs arbitrary: acc) (simp_all add: length_sift)
  then show ?thesis by (simp add: SliceStable_def insertionSort_def)
qed

lemma FindClosestAirport_unfold:
  "FindClosestAirport H lat long airports =
     Inr (take 3 (SliceStable (\<lambda>a b. Type a < Type b) (take 5
       (SliceStable (\<lambda>a b. float_less (Distance a) (Distance b))
         (map (\<lambda>airport. airport\<lparr>Distance := H lat long (Lat airport) (Long airport)\<rparr>)
            airports)))))"
  by (simp add: FindClosestAirport_def foldl_append_map slice_to_min_len Let_def)

text \<open>
  With no NaN among the distances of the candidates the function is the two-stage
  ranking: \<open>byDistance\<close> is the stable ascending sort of the candidates, each carrying
  its distance, by distance; \<open>byType\<close> is the stable ascending sort by the type string of
  the first five (or fewer) of \<open>byDistance\<close>; the result is the first three (or fewer)
  of \<open>byType\<close>.
\<close>

lemma FindClosestAirport_two_stage_without_NaN:
  assumes "\<forall>airport\<in>set airports. HaversineDistance lat long (Lat airport) (Long airport) \<noteq> NaN"
  shows "let matches = map (\<lambda>airport. airport\<lparr>Distance :=
                        HaversineDistance lat long (Lat airport) (Long airport)\<rparr>) airports;
             byDistance = sort_key (\<lambda>a. float_rank (Distance a)) matches;
             byType = sort_key Type (take 5 byDistance)
         in stable_sorted_by (\<lambda>a. float_rank (Distance a)) matches byDistance \<and>
            stable_sorted_by Type (take 5 byDistance) byType \<and>
            FindClosestAirport HaversineDistance lat long airports = Inr (take 3 byType)"
proof -
  define matches where
    "matches = map (\<lambda>airport. airport\<lparr>Distance :=
                      HaversineDistance lat long (Lat airport) (Long airport)\<rparr>) airports"
  define byDistance where
    "byDistance = SliceStable (\<lambda>a b. float_less (Distance a) (Distance b)) matches"
  define byType where "byType = SliceStable (\<lambda>a b. Type a < Type b) (take 5 byDistance)"
  have no_NaN: "\<forall>a\<in>set matches. Distance a \<noteq> NaN"
    using assms by (auto simp: matches_def)
  have "byDistance = SliceStable (\<lambda>a b. float_rank (Distance a) < float_rank (Distance b)) matches"
    unfolding byDistance_def using no_NaN
    by (intro SliceStable_cong) (simp add: float_less_rank)
  then have first: "stable_sorted_by (\<lambda>a. float_rank (Distance a)) matches byDistance"
    unfolding SliceStable_def by (simp add: insertionSort_stable_sorted_by)
  have second: "stable_sorted_by Type (take 5 byDistance) byType"
    unfolding byType_def SliceStable_def by (rule insertionSort_stable_sorted_by)
  have run: "FindClosestAirport HaversineDistance lat long airports = Inr (take 3 byType)"
    by (simp add: FindClosestAirport_unfold byType_def byDistance_def matches_def)
  have d: "byDistance = sort_key (\<lambda>a. float_rank (Distance a)) matches"
    using first by (rule stable_sorted_by_unique)
  have t: "byType = sort_key Type (take 5 byDistance)"
    using second by (rule stable_sorted_by_unique)
  show ?thesis
    using first second run unfolding t d matches_def by (simp add: Let_def)
qed

text \<open>
  C1. The claim says that for every query point the candidates are stable-sorted
  ascending by distance before the first five are taken. The code does not do so
  where \<^verbatim>\<open>HaversineDistance\<close> returns NaN, which it does at finite coordinates in range:
  from the query point \<open>(2.5, 0)\<close> the distance to the airport at \<open>(-2.5, 180)\<close> is NaN,
  every comparison with it is false, and the insertion sort leaves the nearest airport
  \<open>NEA\<close> (1.11 km) behind it in the seventh place, where the cut to five drops it. The
  function returns the three airports at 111, 222 and 333 km.
\<close>

theorem FindClosestAirport_NaN_distance:
  "FindClosestAirport haversine_table (Finite 2.5) (Finite 0) antipode_airports =
     Inr [(airport_at 1 ''FA1'' 3.5 0 ''small_airport'')\<lparr>Distance := Finite 111.19\<rparr>,
          (airport_at 2 ''FA2'' 4.5 0 ''small_airport'')\<lparr>Distance := Finite 222.39\<rparr>,
          (airport_at 3 ''FA3'' 5.5 0 ''small_airport'')\<lparr>Distance := Finite 333.58\<rparr>] \<and>
   haversine_table (Finite 2.5) (Finite 0) (Finite (- 2.5)) (Finite 180) = NaN \<and>
   haversine_table (Finite 2.5) (Finite 0) (Finite 2.5) (Finite 0.01) = Finite 1.11 \<and>
   float_less (Finite 1.11) (Finite 111.19)"
  by (simp add: FindClosestAirport_def SliceStable_def insertionSort_def slice_to_def min_len_def
      antipode_airports_def airport_at_def haversine_table_def Let_def)

text \<open>
  C2. For every input, \<open>FindClosestAirport\<close> returns without a slice going out of
  range (the result is \<open>Inr\<close>); it returns at most three records, exactly
  \<open>min (length airports) 3\<close>; the returned records are candidates with their distance
  attached, each candidate used at most as often as it occurs in the input; and an
  empty candidate list gives an empty result.
\<close>

theorem FindClosestAirport_bounds:
  "\<exists>r. FindClosestAirport HaversineDistance lat long airports = Inr r \<and>
       length r = min (length airports) 3 \<and> length r \<le> 3 \<and>
       mset r \<subseteq># mset (map (\<lambda>airport. airport\<lparr>Distance :=
                            HaversineDistance lat long (Lat airport) (Long airport)\<rparr>) airports) \<and>
       set r \<subseteq> (\<lambda>airport. airport\<lparr>Distance :=
                    HaversineDistance lat long (Lat airport) (Long airport)\<rparr>) ` set airports \<and>
       FindClosestAirport HaversineDistance lat long [] = Inr []"
proof -
  let ?m = "map (\<lambda>airport. airport\<lparr>Distance :=
                   HaversineDistance lat long (Lat airport) (Long airport)\<rparr>) airports"
  let ?d = "SliceStable (\<lambda>a b. float_less (Distance a) (Distance b)) ?m"
  let ?t = "SliceStable (\<lambda>a b. Type a < Type b) (take 5 ?d)"
  have a: "mset (take 3 ?t) \<subseteq># mset (take 5 ?d)"
    using mset_take_subseteq [of 3 ?t] by (simp del: mset_map)
  have b: "mset (take 5 ?d) \<subseteq># mset ?m"
    using mset_take_subseteq [of 5 ?d] by (simp del: mset_map)
  have c: "mset (take 3 ?t) \<subseteq># mset ?m"
    using a b by (rule subset_mset.order_trans)
  have d: "set (take 3 ?t) \<subseteq> set ?m"
    using set_mset_mono [OF c] by (simp del: mset_map)
  have e: "length (take 3 ?t) = min (length airports) 3"
    by simp
  have f: "FindClosestAirport HaversineDistance lat long [] = Inr []"
    by (simp add: FindClosestAirport_unfold)
  show ?thesis
    unfolding FindClosestAirport_unfold using c d e f
    by (intro exI [of _ "take 3 ?t"] conjI) simp_all
qed

subsection \<open>FindClosestAirport leaves the caller's slice alone\<close>

text \<open>The loop fills the new array and writes nowhere else.\<close>

lemma range_loop:
  assumes "n = 0 \<or> (a < length h \<and> n \<le> length (h ! a))"
  shows "foldl (\<lambda>(matches, h) i. append_st matches (f (h ! a ! i)) h)
           (\<lparr>array = length h, len = 0\<rparr>, h @ [[]]) [0..<n]
         = (\<lparr>array = length h, len = n\<rparr>, h @ [map f (take n (h ! a))])"
  using assms
proof (induction n)
  case 0
  then show ?case by simp
next
  case (Suc n)
  then show ?case
    by (simp add: append_st_def nth_append take_Suc_conv_app_nth)
qed

text \<open>
  C8. \<open>FindClosestAirport\<close> never writes to its input: run on a store \<open>h\<close> with the
  caller's slice \<open>airports\<close>, it returns a slice and a store \<open>h'\<close> in which every array
  that existed before the call is unchanged (\<open>take (length h) h' = h\<close>), so the
  caller's candidates, with every stored \<open>Distance\<close>, read as before; the distances
  live in a new array only. The records the returned slice views are those the
  function on lists computes.
\<close>

theorem FindClosestAirport_st_frame:
  assumes "valid h airports"
  shows "\<exists>result h'.
           FindClosestAirport_st HaversineDistance lat long airports h = Inr (result, h') \<and>
           take (length h) h' = h \<and>
           elems h' airports = elems h airports \<and>
           FindClosestAirport HaversineDistance lat long (elems h airports) =
             Inr (elems h' result)"
proof -
  define f :: "Airport \<Rightarrow> Airport" where
    "f = (\<lambda>airport. airport\<lparr>Distance := HaversineDistance lat long (Lat airport) (Long airport)\<rparr>)"
  define n where "n = len airports"
  define m where "m = map f (elems h airports)"
  define byDistance where
    "byDistance = SliceStable (\<lambda>a b. float_less (Distance a) (Distance b)) m"
  define byType where
    "byType = SliceStable (\<lambda>a b. Type a < Type b) (take (min n 5) byDistance)"
  define h' where "h' = h @ [byType @ drop (min n 5) byDistance]"
  define result where "result = \<lparr>array = length h, len = min (min n 5) 3\<rparr>"
  from assms have v: "n = 0 \<or> (array airports < length h \<and> n \<le> length (h ! array airports))"
    by (simp add: valid_def n_def)
  then have len_m: "length m = n"
    by (auto simp: m_def elems_def n_def)
  have loop: "foldl (\<lambda>(matches, h) i. append_st matches (f (h ! array airports ! i)) h)
           (\<lparr>array = length h, len = 0\<rparr>, h @ [[]]) [0..<n]
         = (\<lparr>array = length h, len = n\<rparr>, h @ [m])"
    using range_loop [OF v, of f] by (simp add: m_def elems_def n_def)
  have run: "FindClosestAirport_st HaversineDistance lat long airports h = Inr (result, h')"
    unfolding FindClosestAirport_st_def make_slice_def Let_def prod.case n_def [symmetric]
      loop [unfolded f_def]
    using len_m
    by (simp add: SliceStable_st_def reslice_to_def min.coboundedI1
        byDistance_def [symmetric] byType_def [symmetric] h'_def result_def)
  have frame: "take (length h) h' = h"
    by (simp add: h'_def)
  have same: "elems h' airports = elems h airports"
    using v by (auto simp: elems_def h'_def nth_append n_def)
  have len_t: "length byType = min n 5"
    by (simp add: byType_def byDistance_def len_m)
  have res: "elems h' result = take 3 byType"
  proof -
    have "elems h' result = take (min (length byType) 3) (byType @ drop (min n 5) byDistance)"
      by (simp add: elems_def h'_def result_def len_t)
    also have "\<dots> = take (min (length byType) 3) byType"
      by simp
    also have "\<dots> = take 3 byType"
      by (rule take_min_length)
    finally show ?thesis .
  qed
  have take5: "take (min n 5) byDistance = take 5 byDistance"
    using take_min_length [of byDistance 5] by (simp add: byDistance_def len_m)
  have pure: "FindClosestAirport HaversineDistance lat long (elems h airports) = Inr (take 3 byType)"
    unfolding FindClosestAirport_unfold byType_def take5
    by (simp add: byDistance_def m_def f_def)
  show ?thesis
    using run frame same pure res by simp
qed

theorem FindClosestAirport_st_frame_witness:
  "valid [[far_airport, near_airport]] \<lparr>array = 0, len = 2\<rparr> \<and>
   (\<exists>result h'.
      FindClosestAirport_st taxicab (Finite 0) (Finite 0) \<lparr>array = 0, len = 2\<rparr>
        [[far_airport, near_airport]]
        = Inr (result, h') \<and>
      take 1 h' = [[far_airport, near_airport]] \<and>
      elems h' \<lparr>array = 0, len = 2\<rparr> = [far_airport, near_airport] \<and>
      elems h' result =
        [near_airport\<lparr>Distance := Finite 1\<rparr>, far_airport\<lparr>Distance := Finite 3\<rparr>])"
  using FindClosestAirport_st_frame [of "[[far_airport, near_airport]]" "\<lparr>array = 0, len = 2\<rparr>"
      taxicab "Finite 0" "Finite 0"]
  by (simp add: valid_def elems_def FindClosestAirport_st_def make_slice_def append_st_def
      SliceStable_st_def reslice_to_def SliceStable_def insertionSort_def upt_rec Let_def
      far_airport_def near_airport_def)

subsection \<open>searchCity\<close>

lemma hitsLoop_ok:
  assumes "\<forall>h\<in>set hits. \<exists>c. hitCity index h = Inr c"
  shows "\<exists>cs. hitsLoop index hits results = Inr (results @ cs) \<and>
              map (hitCity index) hits = map Inr cs"
  using assms
proof (induction hits arbitrary: results)
  case Nil
  then show ?case by simp
next
  case (Cons hit hits)
  from Cons.prems obtain c where c: "hitCity index hit = Inr c"
    by auto
  from Cons.prems have "\<forall>h\<in>set hits. \<exists>c. hitCity index h = Inr c"
    by simp
  from Cons.IH [OF this, of "results @ [c]"] obtain cs where
    cs: "hitsLoop index hits (results @ [c]) = Inr ((results @ [c]) @ cs)"
      "map (hitCity index) hits = map Inr cs"
    by blast
  have "hitsLoop index (hit # hits) results = Inr (results @ c # cs)"
    using c cs(1) by simp
  with c cs(2) show ?case
    by (intro exI [of _ "c # cs"]) simp
qed

lemma searchCity_hits:
  assumes "Search index \<lparr>Query = searchTerm, Sort = [''-_score'', ''-population'']\<rparr> = Inr hits"
  shows "(hits = [] \<longrightarrow> searchCity searchTerm index = Inr (City_zero, Some ''No results found'')) \<and>
         (hits \<noteq> [] \<and> (\<forall>h\<in>set hits. \<exists>c. hitCity index h = Inr c) \<longrightarrow>
            (\<exists>first. hitCity index (hd hits) = Inr first \<and>
                     searchCity searchTerm index = Inr (first, None)))"
proof (intro conjI impI)
  assume "hits = []"
  with assms show "searchCity searchTerm index = Inr (City_zero, Some ''No results found'')"
    by (simp add: searchCity_def NewMatchQuery_def NewSearchRequest_def SortBy_def)
next
  assume a: "hits \<noteq> [] \<and> (\<forall>h\<in>set hits. \<exists>c. hitCity index h = Inr c)"
  then obtain hit rest where hits: "hits = hit # rest"
    by (cases hits) auto
  from a hitsLoop_ok [of hits index "[]"] obtain cs where
    cs: "hitsLoop index hits [] = Inr cs" "map (hitCity index) hits = map Inr cs"
    by auto
  from cs(2) hits obtain first cs' where f: "cs = first # cs'" "hitCity index hit = Inr first"
    by (cases cs) auto
  have "searchCity searchTerm index = Inr (first, None)"
    using assms cs(1) f(1) hits
    by (simp add: searchCity_def NewMatchQuery_def NewSearchRequest_def SortBy_def)
  with f(2) hits show "\<exists>first. hitCity index (hd hits) = Inr first \<and>
                     searchCity searchTerm index = Inr (first, None)"
    by simp
qed

lemma cityFromFields_toronto: "cityFromFields toronto_fields = Inr toronto"
  by (simp add: cityFromFields_def toronto_fields_def toronto_def BigEndian_Uint64_def)

text \<open>
  C4. When the search of the index succeeds with the sort order the resolver asks
  for, \<open>searchCity\<close> returns, without a panic, the explicit no-match outcome for an empty
  sequence of hits: the error \<open>No results found\<close> is set beside the zero city, so the
  empty record never comes with a nil error. For a non-empty sequence whose documents
  all decode it returns the city of the first hit with a nil error.
\<close>

theorem searchCity_outcome:
  assumes "Search index \<lparr>Query = searchTerm, Sort = [''-_score'', ''-population'']\<rparr> = Inr hits"
  shows "(hits = [] \<longrightarrow> searchCity searchTerm index = Inr (City_zero, Some ''No results found'')) \<and>
         (hits \<noteq> [] \<and> (\<forall>h\<in>set hits. \<exists>c. hitCity index h = Inr c) \<longrightarrow>
            (\<exists>first. hitCity index (hd hits) = Inr first \<and>
                     searchCity searchTerm index = Inr (first, None)))"
  using assms by (rule searchCity_hits)

theorem searchCity_outcome_witness:
  "Search example_index \<lparr>Query = ''atlantis'', Sort = [''-_score'', ''-population'']\<rparr> = Inr [] \<and>
   searchCity ''atlantis'' example_index = Inr (City_zero, Some ''No results found'') \<and>
   Search example_index \<lparr>Query = ''toronto'', Sort = [''-_score'', ''-population'']\<rparr>
     = Inr [\<lparr>HitID = ''6167865'', Score = Finite 1\<rparr>] \<and>
   hitCity example_index \<lparr>HitID = ''6167865'', Score = Finite 1\<rparr> = Inr toronto \<and>
   searchCity ''toronto'' example_index = Inr (toronto, None)"
  using searchCity_outcome [of example_index "''atlantis''" "[]"]
    searchCity_outcome [of example_index "''toronto''" "[\<lparr>HitID = ''6167865'', Score = Finite 1\<rparr>]"]
  by (simp add: example_index_def hitCity_def cityFromFields_toronto)

subsection \<open>performSearch\<close>

lemma searchCity_error_zero:
  assumes "searchCity searchTerm index = Inr (c, Some e)"
  shows "c = City_zero"
  using assms
  by (auto simp: searchCity_def Let_def split: sum.splits if_splits list.splits)

text \<open>Every schedule delivers a permutation of the outcomes, and every permutation is
  delivered by a schedule.\<close>

lemma mset_arrival: "mset (arrival sched pending) = mset pending"
proof (induction sched arbitrary: pending)
  case Nil
  then show ?case by simp
next
  case (Cons k sched)
  show ?case
  proof (cases "pending = []")
    case True
    then show ?thesis by simp
  next
    case False
    define i where "i = k mod length pending"
    with False have i: "i < length pending" by simp
    have "mset pending = mset (take i pending @ pending ! i # drop (Suc i) pending)"
      using id_take_nth_drop [OF i] by simp
    then show ?thesis
      using False Cons.IH [of "take i pending @ drop (Suc i) pending"]
      by (simp add: i_def [symmetric] Let_def)
  qed
qed

lemma arrival_complete:
  assumes "mset ys = mset pending"
  shows "\<exists>sched. arrival sched pending = ys"
  using assms
proof (induction ys arbitrary: pending)
  case Nil
  then show ?case by (intro exI [of _ "[]"]) simp
next
  case (Cons y ys)
  then have "y \<in> set pending"
    by (metis list.set_intros(1) set_mset_mset)
  then obtain i where i: "i < length pending" "pending ! i = y"
    by (auto simp: in_set_conv_nth)
  have "mset pending = add_mset y (mset (take i pending @ drop (Suc i) pending))"
    using id_take_nth_drop [OF i(1)] i(2) by (metis mset.simps(2) mset_append union_mset_add_mset_right)
  with Cons.prems have "mset ys = mset (take i pending @ drop (Suc i) pending)"
    by simp
  from Cons.IH [OF this] obtain sched where
    "arrival sched (take i pending @ drop (Suc i) pending) = ys" ..
  with i have "arrival (i # sched) pending = y # ys"
    by (auto simp: Let_def)
  then show ?case ..
qed

lemma receive_ok:
  assumes "\<forall>out\<in>set outs. \<exists>r. out = Inr r"
  shows "receive outs results =
           Inr (results @ filter (\<lambda>c. City.ID c \<noteq> []) (map (\<lambda>out. case out of Inr (c, e) \<Rightarrow> c | Inl p \<Rightarrow> City_zero) outs))"
  using assms
proof (induction outs results rule: receive.induct)
  case (1 results)
  then show ?case by simp
next
  case (2 p runner results)
  then show ?case by simp
next
  case (3 result err runner results)
  then show ?case by simp
qed

text \<open>
  C3. For a batch of \<open>N\<close> terms none of whose searches panics (an index error is fatal
  by the program's design), and for every order in which the goroutines deliver,
  \<open>performSearch\<close> returns at most \<open>N\<close> cities; every returned city has a non-empty \<open>ID\<close>
  and is what \<open>searchCity\<close> returned, with a nil error, for some term of the batch; and
  the returned cities are exactly the batch's best matches with a non-empty \<open>ID\<close>, so
  the misses are left out and nothing else is.
\<close>

theorem performSearch_results:
  assumes "\<forall>item\<in>set cities. \<exists>r. searchCity item cityIndex = Inr r"
  shows "\<exists>results. performSearch sched cities cityIndex = Inr results \<and>
           length results \<le> length cities \<and>
           (\<forall>c\<in>set results. City.ID c \<noteq> [] \<and>
              (\<exists>item\<in>set cities. searchCity item cityIndex = Inr (c, None))) \<and>
           mset results =
             filter_mset (\<lambda>c. City.ID c \<noteq> []) (image_mset (bestMatch cityIndex) (mset cities))"
proof -
  define outs where "outs = arrival sched (map (\<lambda>item. searchCity item cityIndex) cities)"
  define g :: "panic + City \<times> string option \<Rightarrow> City" where
    "g = (\<lambda>out. case out of Inr (c, e) \<Rightarrow> c | Inl p \<Rightarrow> City_zero)"
  define results where "results = filter (\<lambda>c. City.ID c \<noteq> []) (map g outs)"
  have m: "mset outs = mset (map (\<lambda>item. searchCity item cityIndex) cities)"
    by (simp add: outs_def mset_arrival del: mset_map)
  then have s: "set outs = (\<lambda>item. searchCity item cityIndex) ` set cities"
    by (metis set_mset_mset set_map)
  with assms have ok: "\<forall>out\<in>set outs. \<exists>r. out = Inr r"
    by auto
  have run: "performSearch sched cities cityIndex = Inr results"
    using receive_ok [OF ok, of "[]"]
    by (simp add: performSearch_def outs_def [symmetric] results_def g_def)
  have "length outs = length cities"
    using m by (metis length_map size_mset)
  then have len: "length results \<le> length cities"
    by (metis results_def length_filter_le length_map)
  have gb: "g (searchCity item cityIndex) = bestMatch cityIndex item" for item
    by (simp add: g_def bestMatch_def)
  have "mset results = filter_mset (\<lambda>c. City.ID c \<noteq> []) (image_mset g (mset outs))"
    by (simp add: results_def)
  also have "image_mset g (mset outs) = image_mset (bestMatch cityIndex) (mset cities)"
    unfolding m by (simp add: image_mset.compositionality comp_def gb)
  finally have ms: "mset results =
      filter_mset (\<lambda>c. City.ID c \<noteq> []) (image_mset (bestMatch cityIndex) (mset cities))" .
  have each: "City.ID c \<noteq> [] \<and> (\<exists>item\<in>set cities. searchCity item cityIndex = Inr (c, None))"
    if "c \<in> set results" for c
  proof -
    from that obtain out where out: "out \<in> set outs" "c = g out" "City.ID c \<noteq> []"
      by (auto simp: results_def)
    from out(1) s obtain item where item: "item \<in> set cities" "out = searchCity item cityIndex"
      by auto
    from out(1) ok obtain c' e where r: "out = Inr (c', e)"
      by (metis surj_pair)
    with out(2) have c': "c' = c" by (simp add: g_def)
    have "e = None"
    proof (cases e)
      case None
      then show ?thesis .
    next
      case (Some err)
      with r item(2) c' have "c = City_zero"
        using searchCity_error_zero [of item cityIndex c err] by simp
      with out(3) show ?thesis by (simp add: City_zero_def)
    qed
    with r c' item out(3) show ?thesis by auto
  qed
  from run len each ms show ?thesis by blast
qed

lemma searchCity_toronto: "searchCity ''toronto'' example_index = Inr (toronto, None)"
  by (simp add: searchCity_def NewMatchQuery_def NewSearchRequest_def SortBy_def example_index_def
      hitCity_def cityFromFields_toronto)

lemma searchCity_atlantis:
  "searchCity ''atlantis'' example_index = Inr (City_zero, Some ''No results found'')"
  by (simp add: searchCity_def NewMatchQuery_def NewSearchRequest_def SortBy_def example_index_def)

theorem performSearch_results_witness:
  "(\<exists>r. searchCity ''toronto'' example_index = Inr r) \<and>
   (\<exists>r. searchCity ''atlantis'' example_index = Inr r) \<and>
   performSearch [1] [''toronto'', ''atlantis''] example_index = Inr [toronto]"
  using performSearch_results [of "[''toronto'', ''atlantis'']" example_index "[1]"]
  by (simp add: searchCity_toronto searchCity_atlantis performSearch_def City_zero_def toronto_def)

subsection \<open>The resolver on the index store of the specification\<close>

lemma set_matching:
  "set (matching st term) = {(d, s). d \<in> set (Docs st) \<and> Relevance st term d = Some s}"
  by (force simp: matching_def List.map_filter_def)

lemma find_DocID:
  assumes "distinct (map DocID ds)" "d \<in> set ds"
  shows "find (\<lambda>d'. DocID d' = DocID d) ds = Some d"
  using assms by (induction ds) (auto simp: rev_image_eqI)

text \<open>
  C6. On the index store of the specification, with unique document ids and stored
  fields that decode, the query returns exactly the matching documents, ordered by
  descending score and, among equal scores, by descending population, and
  \<open>searchCity\<close> returns the city of the head of that ordering (the no-match outcome
  when it is empty).
\<close>

theorem searchCity_storeIndex:
  assumes "distinct (map DocID (Docs st))"
    and "\<forall>d\<in>set (Docs st). \<exists>c. cityFromFields (Stored d) = Inr c"
  shows "sorted_wrt (\<lambda>(d1, s1) (d2, s2).
             s2 < s1 \<or> (s2 = s1 \<and> IndexedPopulation d2 \<le> IndexedPopulation d1))
           (query st term) \<and>
         set (query st term) = {(d, s). d \<in> set (Docs st) \<and> Relevance st term d = Some s} \<and>
         (case query st term of
            [] \<Rightarrow> searchCity term (storeIndex st) = Inr (City_zero, Some ''No results found'')
          | (d, s) # _ \<Rightarrow>
              (\<exists>c. cityFromFields (Stored d) = Inr c \<and>
                   searchCity term (storeIndex st) = Inr (c, None)))"
proof (intro conjI)
  have "sorted (map (\<lambda>(d, score). (- score, - IndexedPopulation d)) (query st term))"
    unfolding query_def by (rule sorted_sort_key)
  then show "sorted_wrt (\<lambda>(d1, s1) (d2, s2).
             s2 < s1 \<or> (s2 = s1 \<and> IndexedPopulation d2 \<le> IndexedPopulation d1))
           (query st term)"
    unfolding sorted_map
    by (rule sorted_wrt_mono_rel [rotated]) (auto simp: less_eq_prod_def)
next
  show q: "set (query st term) = {(d, s). d \<in> set (Docs st) \<and> Relevance st term d = Some s}"
    by (simp add: query_def set_matching)
  define hits where
    "hits = map (\<lambda>(d, score). \<lparr>HitID = DocID d, Score = Finite score\<rparr>) (query st term)"
  have S: "Search (storeIndex st) \<lparr>Query = term, Sort = [''-_score'', ''-population'']\<rparr> = Inr hits"
    by (simp add: storeIndex_def hits_def)
  have hc: "hitCity (storeIndex st) \<lparr>HitID = DocID d, Score = Finite s\<rparr> = cityFromFields (Stored d)"
    if "(d, s) \<in> set (query st term)" for d s
  proof -
    from that q have "d \<in> set (Docs st)" by auto
    from find_DocID [OF assms(1) this] show ?thesis
      by (simp add: hitCity_def storeIndex_def)
  qed
  show "case query st term of
          [] \<Rightarrow> searchCity term (storeIndex st) = Inr (City_zero, Some ''No results found'')
        | (d, s) # _ \<Rightarrow>
            (\<exists>c. cityFromFields (Stored d) = Inr c \<and>
                 searchCity term (storeIndex st) = Inr (c, None))"
  proof (cases "query st term")
    case Nil
    then have "hits = []" by (simp add: hits_def)
    with searchCity_hits [OF S] Nil show ?thesis by simp
  next
    case (Cons a rest)
    obtain d s where a: "a = (d, s)" by (cases a)
    have ne: "hits \<noteq> []" using Cons by (simp add: hits_def)
    have all: "\<forall>h\<in>set hits. \<exists>c. hitCity (storeIndex st) h = Inr c"
    proof
      fix h assume "h \<in> set hits"
      then obtain d' s' where ds: "(d', s') \<in> set (query st term)"
          "h = \<lparr>HitID = DocID d', Score = Finite s'\<rparr>"
        by (auto simp: hits_def)
      with q have "d' \<in> set (Docs st)" by auto
      with assms(2) obtain c where "cityFromFields (Stored d') = Inr c" by auto
      with hc [OF ds(1)] ds(2) show "\<exists>c. hitCity (storeIndex st) h = Inr c" by simp
    qed
    from searchCity_hits [OF S] ne all obtain first where
      first: "hitCity (storeIndex st) (hd hits) = Inr first"
        "searchCity term (storeIndex st) = Inr (first, None)"
      by blast
    have "hd hits = \<lparr>HitID = DocID d, Score = Finite s\<rparr>"
      using Cons a by (simp add: hits_def)
    with first(1) hc [of d s] Cons a have "cityFromFields (Stored d) = Inr first"
      by simp
    with first(2) Cons a show ?thesis by simp
  qed
qed

lemma cityFromFields_toronto_ohio: "\<exists>c. cityFromFields toronto_ohio_fields = Inr c"
  by (simp add: cityFromFields_def toronto_ohio_fields_def BigEndian_Uint64_def)

lemma query_example:
  "query example_store ''toronto'' =
     [(\<lparr>DocID = ''6167865'', Stored = toronto_fields, IndexedPopulation = 2800000\<rparr>, 1),
      (\<lparr>DocID = ''5174095'', Stored = toronto_ohio_fields, IndexedPopulation = 5091\<rparr>, 1)]"
  by (simp add: query_def matching_def example_store_def less_eq_prod_def)

theorem searchCity_storeIndex_witness:
  "distinct (map DocID (Docs example_store)) \<and>
   (\<exists>c. cityFromFields toronto_ohio_fields = Inr c) \<and>
   (\<exists>c. cityFromFields toronto_fields = Inr c) \<and>
   query example_store ''toronto'' =
     [(\<lparr>DocID = ''6167865'', Stored = toronto_fields, IndexedPopulation = 2800000\<rparr>, 1),
      (\<lparr>DocID = ''5174095'', Stored = toronto_ohio_fields, IndexedPopulation = 5091\<rparr>, 1)] \<and>
   searchCity ''toronto'' (storeIndex example_store) = Inr (toronto, None)"
  using searchCity_storeIndex [of example_store "''toronto''"]
  by (simp add: query_example cityFromFields_toronto cityFromFields_toronto_ohio)
     (simp add: example_store_def cityFromFields_toronto_ohio cityFromFields_toronto)

subsection \<open>formatResults\<close>

lemma formatCity_ok:
  assumes "LoadLocation env (Timezone city) \<noteq> None"
  shows "\<exists>r. formatCity H env countryIndex airportIndex phoneIndex currencyIndex i city = Inr r \<and>
             UID r = City.ID city"
  using assms
  by (auto simp: formatCity_def Let_def FindClosestAirport_unfold)

lemma formatLoop_ok:
  assumes "\<forall>city\<in>set rs. City.ID city \<noteq> [] \<longrightarrow> (\<forall>j. \<exists>r. body j city = Inr r)"
    and "i + length rs \<le> length slots"
  shows "\<exists>out. formatLoop body i rs slots = Inr out \<and> length out = length slots \<and>
           (\<forall>j<i. out ! j = slots ! j) \<and>
           (\<forall>j<length rs. (City.ID (rs ! j) = [] \<longrightarrow> out ! (i + j) = slots ! (i + j)) \<and>
                           (City.ID (rs ! j) \<noteq> [] \<longrightarrow> body (i + j) (rs ! j) = Inr (out ! (i + j))))"
  using assms
proof (induction rs arbitrary: i slots)
  case Nil
  then show ?case by simp
next
  case (Cons city rs)
  show ?case
  proof (cases "City.ID city = []")
    case True
    from Cons.prems have "\<forall>city\<in>set rs. City.ID city \<noteq> [] \<longrightarrow> (\<forall>j. \<exists>r. body j city = Inr r)"
      "Suc i + length rs \<le> length slots"
      by auto
    from Cons.IH [OF this] obtain out where out:
      "formatLoop body (Suc i) rs slots = Inr out" "length out = length slots"
      "\<forall>j<Suc i. out ! j = slots ! j"
      "\<forall>j<length rs. (City.ID (rs ! j) = [] \<longrightarrow> out ! (Suc i + j) = slots ! (Suc i + j)) \<and>
                           (City.ID (rs ! j) \<noteq> [] \<longrightarrow> body (Suc i + j) (rs ! j) = Inr (out ! (Suc i + j)))"
      by blast
    have "\<forall>j<length (city # rs). (City.ID ((city # rs) ! j) = [] \<longrightarrow> out ! (i + j) = slots ! (i + j)) \<and>
                           (City.ID ((city # rs) ! j) \<noteq> [] \<longrightarrow> body (i + j) ((city # rs) ! j) = Inr (out ! (i + j)))"
    proof (intro allI impI)
      fix j assume "j < length (city # rs)"
      then show "(City.ID ((city # rs) ! j) = [] \<longrightarrow> out ! (i + j) = slots ! (i + j)) \<and>
                           (City.ID ((city # rs) ! j) \<noteq> [] \<longrightarrow> body (i + j) ((city # rs) ! j) = Inr (out ! (i + j)))"
        using out(3,4) True by (cases j) auto
    qed
    with out(1,2,3) True show ?thesis by simp
  next
    case False
    with Cons.prems have "\<forall>j. \<exists>r. body j city = Inr r" by simp
    then obtain r where r: "body i city = Inr r" by blast
    from Cons.prems have "\<forall>city\<in>set rs. City.ID city \<noteq> [] \<longrightarrow> (\<forall>j. \<exists>r. body j city = Inr r)"
      "Suc i + length rs \<le> length (slots[i := r])"
      by auto
    from Cons.IH [OF this] obtain out where out:
      "formatLoop body (Suc i) rs (slots[i := r]) = Inr out" "length out = length slots"
      "\<forall>j<Suc i. out ! j = slots[i := r] ! j"
      "\<forall>j<length rs. (City.ID (rs ! j) = [] \<longrightarrow> out ! (Suc i + j) = slots[i := r] ! (Suc i + j)) \<and>
                           (City.ID (rs ! j) \<noteq> [] \<longrightarrow> body (Suc i + j) (rs ! j) = Inr (out ! (Suc i + j)))"
      by auto
    from Cons.prems(2) have i: "i < length slots" by simp
    have "\<forall>j<length (city # rs). (City.ID ((city # rs) ! j) = [] \<longrightarrow> out ! (i + j) = slots ! (i + j)) \<and>
                           (City.ID ((city # rs) ! j) \<noteq> [] \<longrightarrow> body (i + j) ((city # rs) ! j) = Inr (out ! (i + j)))"
    proof (intro allI impI)
      fix j assume "j < length (city # rs)"
      then show "(City.ID ((city # rs) ! j) = [] \<longrightarrow> out ! (i + j) = slots ! (i + j)) \<and>
                           (City.ID ((city # rs) ! j) \<noteq> [] \<longrightarrow> body (i + j) ((city # rs) ! j) = Inr (out ! (i + j)))"
        using out(3,4) False r i by (cases j) auto
    qed
    moreover have "\<forall>j<i. out ! j = slots ! j"
      using out(3) by auto
    ultimately show ?thesis using out(1,2) False r by simp
  qed
qed

text \<open>
  What the loop does when it runs to its end, which it does when the time zone of each
  city with a non-empty \<open>ID\<close> loads: the items array is as long as the list, a city
  with an empty \<open>ID\<close> leaves the zero \<open>SearchResult\<close> at its position, and a city with
  a non-empty \<open>ID\<close> has its formatted result there.
\<close>

lemma formatResults_items:
  assumes "\<forall>city\<in>set results. City.ID city \<noteq> [] \<longrightarrow> LoadLocation env (Timezone city) \<noteq> None"
  shows "\<exists>output.
           formatItems HaversineDistance env results countryIndex airportIndex phoneIndex currencyIndex
             = Inr output \<and>
           formatResults HaversineDistance env results countryIndex airportIndex phoneIndex currencyIndex
             = Inr ([CHR ''{'', CHR 0x22] @ ''items'' @ [CHR 0x22, CHR '':''] @ Marshal env output @ ''}'') \<and>
           length output = length results \<and>
           (\<forall>i<length results.
              (City.ID (results ! i) = [] \<longrightarrow> output ! i = SearchResult_zero) \<and>
              (City.ID (results ! i) \<noteq> [] \<longrightarrow>
                 UID (output ! i) = City.ID (results ! i) \<and>
                 formatCity HaversineDistance env countryIndex airportIndex phoneIndex currencyIndex i
                   (results ! i) = Inr (output ! i)))"
proof -
  let ?body = "formatCity HaversineDistance env countryIndex airportIndex phoneIndex currencyIndex"
  have "\<forall>city\<in>set results. City.ID city \<noteq> [] \<longrightarrow> (\<forall>j. \<exists>r. ?body j city = Inr r)"
    using assms formatCity_ok by blast
  from formatLoop_ok [OF this, of 0 "replicate (length results) SearchResult_zero"]
  obtain out where out:
    "formatLoop ?body 0 results (replicate (length results) SearchResult_zero) = Inr out"
    "length out = length results"
    "\<forall>j<length results. (City.ID (results ! j) = [] \<longrightarrow> out ! j = SearchResult_zero) \<and>
        (City.ID (results ! j) \<noteq> [] \<longrightarrow> ?body j (results ! j) = Inr (out ! j))"
    by auto
  have uid: "UID (out ! i) = City.ID (results ! i)"
    if "i < length results" "City.ID (results ! i) \<noteq> []" for i
  proof -
    from that assms have "LoadLocation env (Timezone (results ! i)) \<noteq> None" by simp
    from formatCity_ok [OF this, of HaversineDistance countryIndex airportIndex phoneIndex currencyIndex i]
      out(3) that show ?thesis by auto
  qed
  show ?thesis
    using out uid by (intro exI [of _ out]) (simp add: formatItems_def formatResults_def)
qed

lemma formatResults_items_example:
  "LoadLocation example_env (Timezone toronto) \<noteq> None \<and> City.ID City_zero = [] \<and>
   (\<exists>output.
      formatItems taxicab example_env [toronto, City_zero] example_countries example_airports
        example_phones example_currencies = Inr output \<and>
      length output = 2 \<and> UID (output ! 0) = ''6167865'' \<and> output ! 1 = SearchResult_zero)"
  using formatResults_items [of "[toronto, City_zero]" example_env taxicab example_countries
      example_airports example_phones example_currencies]
  by (auto simp: example_env_def toronto_def City_zero_def)

text \<open>
  C9. The claim says that for every list of cities \<open>formatResults\<close> produces an items
  array as long as the list. The code produces none for a list with a city whose time
  zone does not load: the loop panics in \<^verbatim>\<open>time.Now().In(loc)\<close> with the nil location,
  by the dropped error of \<^verbatim>\<open>time.LoadLocation\<close> (the defect of C5).
\<close>

theorem formatItems_invalid_timezone:
  "formatItems taxicab example_env [olympus] example_countries example_airports
     example_phones example_currencies
   = Inl (RuntimeError ''time: missing Location in call to Time.In'')"
  by (simp add: formatItems_def formatCity_def example_env_def olympus_def)

text \<open>
  The other fallbacks of the loop body are as the specification has them: a key
  missing from a lookup table reads as the empty string (a missing airport list as
  no airports), and when the flag file does not exist the icon is the default asset.
\<close>

lemma index_string_missing: "m k = None \<Longrightarrow> index_string m k = []"
  by (simp add: index_string_def)

lemma index_airports_missing: "m k = None \<Longrightarrow> index_airports m k = []"
  by (simp add: index_airports_def)

lemma formatCity_icon:
  assumes "LoadLocation env (Timezone city) = Some loc"
  shows "\<exists>r. formatCity H env countryIndex airportIndex phoneIndex currencyIndex i city = Inr r \<and>
             Path (Icon r) =
               (let icon = ''flags/'' @ ToLower env (Replace (index_string countryIndex
                             (CountryID city)) CHR '' '' CHR ''_'') @ ''.png''
                in if IsNotExist env icon then ''flags/_no_flag.png'' else icon)"
  using assms by (simp add: formatCity_def Let_def FindClosestAirport_unfold)

text \<open>
  C5. The claim says an invalid time zone degrades to an unspecified time and never
  aborts the batch. The code drops the error of \<^verbatim>\<open>time.LoadLocation\<close> and passes the nil
  location to \<^verbatim>\<open>Time.In\<close>, which panics: a batch of a valid city and a city with an
  unknown zone produces no payload at all.
\<close>

theorem formatResults_invalid_timezone:
  "formatResults taxicab example_env [toronto, olympus] example_countries example_airports
     example_phones example_currencies
   = Inl (RuntimeError ''time: missing Location in call to Time.In'')"
  by (simp add: formatResults_def formatItems_def formatCity_def example_env_def toronto_def
      olympus_def FindClosestAirport_unfold Let_def)

subsection \<open>main\<close>

lemma Join_empty_iff: "Join args '' '' = [] \<longleftrightarrow> args = [] \<or> args = [[]]"
  by (induction args "'' ''" rule: Join.induct) auto

text \<open>
  C10. When the arguments joined by a space are the empty string (no argument, or
  one empty argument), \<open>main\<close> panics with \<open>Must specify query\<close> and its trace is empty:
  no file was looked up, no index created or opened, no dataset loaded and nothing
  printed.
\<close>

theorem main_no_query:
  assumes "Join args '' '' = []"
  shows "main HaversineDistance w args = ([], Inl (Panic ''Must specify query''))"
  using assms by (simp add: main_def)

theorem main_no_query_witness:
  "Join [] '' '' = [] \<and> main taxicab example_world [] = ([], Inl (Panic ''Must specify query''))"
  using main_no_query [of "[]" taxicab example_world] by simp

end
